theory Spec2Isabelle
  imports Main "HOL-Library.Multiset"
begin

section \<open>The facade \<open>MPRester\<close> of \<open>mp_api/matproj.py\<close>\<close>

subsection \<open>Errors, values and the world\<close>

text \<open>
  Every exception the facade or one of its collaborators can raise is a value of
  \<open>error\<close>; a call returns \<open>error + 'a\<close> with \<open>Inl\<close> for a raise.
\<close>

datatype error =
    NotImplementedError
  | ValueError
  | AttributeError string
  | TypeError
  | ValidationError
  | NotFoundError
  | AuthError
  | ServerError
  | TransientServerError
  | ChunkRetrievalError "string list"

text \<open>
  A resource client class (a subclass of \<open>BaseRester\<close>) is known to the facade by its
  \<open>suffix\<close> and by the methods it defines. The classes themselves live in
  \<open>mp_api.routes\<close>; the facade only enumerates them.
\<close>

record rester_class =
  cls_name :: string
  suffix :: string
  methods :: "string list"

text \<open>
  The Python values an attribute of the facade can hold. A resource client instance is
  the record of its constructor call \<open>cls(api_key, endpoint, include_user_agent, session)\<close>;
  a session is a reference into the world's table of sessions, so that two holders of
  the same reference share one session.
\<close>

datatype pyval =
    VNone
  | VStr string
  | VSession nat
  | VList "pyval list"
  | VRester (r_cls: rester_class) (r_api_key: pyval) (r_endpoint: string)
      (r_include_user_agent: bool) (r_session: pyval)
  | VMethod pyval string

type_synonym facade = "string \<rightharpoonup> pyval"

text \<open>
  The world outside the facade: for every session created so far the number of times
  it has been closed, the warnings emitted, and the state of the remote service.
\<close>

record 'b world =
  sessions :: "nat list"
  warnings :: "string list"
  remote :: 'b

text \<open>
  Modelled from the spec: \<open>BaseRester._create_session\<close> is missing from the sources. The
  spec's data model has the session "created once by the Facade"; creating one
  allocates a fresh entry that has never been closed.
\<close>

definition create_session :: "pyval \<Rightarrow> bool \<Rightarrow> 'b world \<Rightarrow> nat \<times> 'b world" where
  "create_session api_key include_user_agent w =
     (length (sessions w), w\<lparr>sessions := sessions w @ [0]\<rparr>)"

definition session_close :: "nat \<Rightarrow> 'b world \<Rightarrow> 'b world" where
  "session_close s w = w\<lparr>sessions := (sessions w)[s := Suc (sessions w ! s)]\<rparr>"

definition close_count :: "nat \<Rightarrow> 'b world \<Rightarrow> nat" where
  "close_count s w = sessions w ! s"

subsection \<open>Construction\<close>

text \<open>\<open>cls.suffix.replace("/", "_")\<close>\<close>

definition attr_name :: "rester_class \<Rightarrow> string" where
  "attr_name cls = map (\<lambda>c. if c = CHR ''/'' then CHR ''_'' else c) (suffix cls)"

text \<open>
  The loop over \<open>BaseRester.__subclasses__()\<close>: build the client with the facade's
  current \<open>session\<close> attribute, append it to \<open>_all_resters\<close>, then \<open>setattr\<close> it under
  the name derived from the suffix. Appending to something that is not a list raises.
\<close>

fun wire_resters ::
  "rester_class list \<Rightarrow> pyval \<Rightarrow> string \<Rightarrow> bool \<Rightarrow> facade \<Rightarrow> error + facade" where
  "wire_resters [] api_key endpoint include_user_agent self = Inr self"
| "wire_resters (cls # rest) api_key endpoint include_user_agent self =
     (case self ''session'' of
        None \<Rightarrow> Inl (AttributeError ''session'')
      | Some sess \<Rightarrow>
          (let rester = VRester cls api_key endpoint include_user_agent sess in
           case self ''_all_resters'' of
             Some (VList rs) \<Rightarrow>
               wire_resters rest api_key endpoint include_user_agent
                 ((self(''_all_resters'' \<mapsto> VList (rs @ [rester])))(attr_name cls \<mapsto> rester))
           | _ \<Rightarrow> Inl (AttributeError ''append'')))"

text \<open>Attribute lookup on the facade and on a value found there.\<close>

definition getattr_self :: "facade \<Rightarrow> string \<Rightarrow> error + pyval" where
  "getattr_self self name =
     (case self name of None \<Rightarrow> Inl (AttributeError name) | Some v \<Rightarrow> Inr v)"

definition getattr_val :: "pyval \<Rightarrow> string \<Rightarrow> error + pyval" where
  "getattr_val v name =
     (case v of
        VRester cls k e u s \<Rightarrow>
          if name \<in> set (methods cls) then Inr (VMethod v name) else Inl (AttributeError name)
      | _ \<Rightarrow> Inl (AttributeError name))"

text \<open>
  The assignments \<open>self.alias = self.client.method\<close> that end \<open>__init__\<close>, in the
  source's order.
\<close>

definition aliases :: "(string \<times> string \<times> string) list" where
  "aliases =
     [(''find_structure'', ''materials'', ''find_structure''),
      (''get_bandstructure_by_material_id'', ''electronic_structure_bandstructure'',
         ''get_bandstructure_from_material_id''),
      (''get_dos_by_material_id'', ''electronic_structure_dos'', ''get_dos_from_material_id''),
      (''get_charge_density_from_calculation_id'', ''charge_density'',
         ''get_charge_density_from_calculation_id''),
      (''get_charge_density_calculation_details'', ''charge_density'',
         ''get_charge_density_calculation_details''),
      (''get_charge_density_calculation_ids_from_material_id'', ''charge_density'',
         ''get_charge_density_calculation_ids_from_material_id'')]"

fun set_aliases :: "(string \<times> string \<times> string) list \<Rightarrow> facade \<Rightarrow> error + facade" where
  "set_aliases [] self = Inr self"
| "set_aliases ((alias, client, method) # rest) self =
     (case getattr_self self client of
        Inl e \<Rightarrow> Inl e
      | Inr v \<Rightarrow>
          (case getattr_val v method of
             Inl e \<Rightarrow> Inl e
           | Inr m \<Rightarrow> set_aliases rest (self(alias \<mapsto> m))))"

text \<open>
  \<open>MPRester.__init__\<close>. The list \<open>subclasses\<close> is \<open>BaseRester.__subclasses__()\<close>; the
  argument \<open>api_key\<close> is a string or \<open>None\<close>.
\<close>

definition MPRester_init ::
  "rester_class list \<Rightarrow> pyval \<Rightarrow> string \<Rightarrow> bool \<Rightarrow> bool \<Rightarrow> 'b world
     \<Rightarrow> (error + facade) \<times> 'b world" where
  "MPRester_init subclasses api_key endpoint notify_db_version include_user_agent w =
     (let (s, w1) = create_session api_key include_user_agent w;
          self0 = [''api_key'' \<mapsto> api_key, ''endpoint'' \<mapsto> VStr endpoint,
                   ''session'' \<mapsto> VSession s, ''_all_resters'' \<mapsto> VList []]
      in case wire_resters subclasses api_key endpoint include_user_agent self0 of
           Inl e \<Rightarrow> (Inl e, w1)
         | Inr self1 \<Rightarrow>
             (case set_aliases aliases self1 of
                Inl e \<Rightarrow> (Inl e, w1)
              | Inr self2 \<Rightarrow> (Inr self2, w1)))"

subsection \<open>The \<open>with\<close> scope\<close>

definition MPRester_enter :: "facade \<Rightarrow> facade" where
  "MPRester_enter self = self"

text \<open>
  \<open>__exit__\<close> calls \<open>self.session.close()\<close> and returns \<open>None\<close>, whatever exception
  (\<open>exc\<close>) ended the block.
\<close>

definition MPRester_exit ::
  "facade \<Rightarrow> error option \<Rightarrow> 'b world \<Rightarrow> (error + pyval) \<times> 'b world" where
  "MPRester_exit self exc w =
     (case self ''session'' of
        None \<Rightarrow> (Inl (AttributeError ''session''), w)
      | Some (VSession s) \<Rightarrow> (Inr VNone, session_close s w)
      | Some _ \<Rightarrow> (Inl (AttributeError ''close''), w))"

text \<open>
  Python's \<open>with self as mpr: body\<close>: \<open>__enter__\<close>, the block, then \<open>__exit__\<close> on every
  way out of the block. \<open>__exit__\<close> returns \<open>None\<close>, which is falsy, so an exception of
  the block is raised again after it; an exception of \<open>__exit__\<close> itself replaces it.
\<close>

definition with_scope ::
  "facade \<Rightarrow> (facade \<Rightarrow> 'b world \<Rightarrow> (error + 'a) \<times> 'b world) \<Rightarrow> 'b world
     \<Rightarrow> (error + 'a) \<times> 'b world" where
  "with_scope self body w =
     (let mpr = MPRester_enter self;
          (r, w1) = body mpr w;
          exc = (case r of Inl e \<Rightarrow> Some e | Inr _ \<Rightarrow> None)
      in case MPRester_exit self exc w1 of
           (Inl e, w2) \<Rightarrow> (Inl e, w2)
         | (Inr _, w2) \<Rightarrow> (r, w2))"

subsection \<open>Methods that are not implemented\<close>

definition get_materials_id_references ::
  "facade \<Rightarrow> string \<Rightarrow> 'b world \<Rightarrow> (error + 'r) \<times> 'b world" where
  "get_materials_id_references self material_id w = (Inl NotImplementedError, w)"

definition get_phonon_dos_by_material_id ::
  "facade \<Rightarrow> string \<Rightarrow> 'b world \<Rightarrow> (error + 'r) \<times> 'b world" where
  "get_phonon_dos_by_material_id self material_id w = (Inl NotImplementedError, w)"

definition query ::
  "facade \<Rightarrow> 'c \<Rightarrow> string list \<Rightarrow> string option \<Rightarrow> bool option \<Rightarrow> int option \<Rightarrow> int
     \<Rightarrow> bool \<Rightarrow> string list option \<Rightarrow> 'b world \<Rightarrow> (error + 'r) \<times> 'b world" where
  "query self criteria properties sort_field ascending num_chunks chunk_size all_fields
     fields' w = (Inl NotImplementedError, w)"

definition submit_structures ::
  "facade \<Rightarrow> 'st list \<Rightarrow> string \<Rightarrow> string \<Rightarrow> 'b world \<Rightarrow> (error + 'r) \<times> 'b world" where
  "submit_structures self structures public_name public_email w = (Inl NotImplementedError, w)"

definition get_stability ::
  "facade \<Rightarrow> 'e list \<Rightarrow> 'b world \<Rightarrow> (error + 'r) \<times> 'b world" where
  "get_stability self entries w = (Inl NotImplementedError, w)"

definition get_cohesive_energy ::
  "facade \<Rightarrow> string \<Rightarrow> bool \<Rightarrow> 'b world \<Rightarrow> (error + 'r) \<times> 'b world" where
  "get_cohesive_energy self material_id per_atom w = (Inl NotImplementedError, w)"

definition get_reaction ::
  "facade \<Rightarrow> string list \<Rightarrow> string list \<Rightarrow> 'b world \<Rightarrow> (error + 'r) \<times> 'b world" where
  "get_reaction self reactants products w = (Inl NotImplementedError, w)"

definition get_interface_reactions ::
  "facade \<Rightarrow> string \<Rightarrow> string \<Rightarrow> string option \<Rightarrow> 'mu option \<Rightarrow> bool \<Rightarrow> 'b world
     \<Rightarrow> (error + 'r) \<times> 'b world" where
  "get_interface_reactions self reactant1 reactant2 open_el relative_mu use_hull_energy w =
     (Inl NotImplementedError, w)"

subsection \<open>Structures\<close>

text \<open>
  \<open>get_structure_by_material_id\<close>. The collaborators are parameters:
  \<open>materials_get_structure\<close> is \<open>self.materials.get_structure_by_material_id\<close>, applied to
  the client found under \<open>materials\<close>; \<open>truthy\<close> is Python's truth value of what it
  returned; \<open>conv_final\<close> is \<open>SpacegroupAnalyzer(_).get_conventional_standard_structure()\<close>
  on that value and \<open>conv_each\<close> the same over each element of it.
\<close>

definition get_structure_by_material_id ::
  "(pyval \<Rightarrow> string \<Rightarrow> bool \<Rightarrow> 'b world \<Rightarrow> (error + 'sd) \<times> 'b world)
     \<Rightarrow> ('sd \<Rightarrow> bool) \<Rightarrow> ('sd \<Rightarrow> error + 'sd) \<Rightarrow> ('sd \<Rightarrow> error + 'sd)
     \<Rightarrow> facade \<Rightarrow> string \<Rightarrow> bool \<Rightarrow> bool \<Rightarrow> 'b world \<Rightarrow> (error + 'sd) \<times> 'b world" where
  "get_structure_by_material_id materials_get_structure truthy conv_final conv_each
     self material_id final conventional_unit_cell w =
     (case getattr_self self ''materials'' of
        Inl e \<Rightarrow> (Inl e, w)
      | Inr client \<Rightarrow>
          (case materials_get_structure client material_id final w of
             (Inl e, w1) \<Rightarrow> (Inl e, w1)
           | (Inr structure_data, w1) \<Rightarrow>
               if conventional_unit_cell \<and> truthy structure_data then
                 (if final then (conv_final structure_data, w1)
                  else (conv_each structure_data, w1))
               else (Inr structure_data, w1)))"

subsection \<open>Surface data\<close>

record 'p surface_entry =
  miller_index :: "int list"
  entry_fields :: 'p

record ('p, 'q) surface_doc =
  surfaces :: "'p surface_entry list"
  doc_fields :: 'q

text \<open>What \<open>get_surface_data\<close> returns: one surface's dict, the document's dict, or \<open>None\<close>.\<close>

datatype ('p, 'q) surface_data =
    SurfaceDict "'p surface_entry"
  | DocDict "('p, 'q) surface_doc"
  | PyNone

text \<open>
  The loop \<open>for surface in doc.surfaces\<close>: the first surface whose Miller index is among
  \<open>eq_indices\<close> is returned; when the loop ends without one the method falls off its
  end.
\<close>

fun first_equivalent ::
  "'p surface_entry list \<Rightarrow> int list list \<Rightarrow> ('p, 'q) surface_data" where
  "first_equivalent [] eq_indices = PyNone"
| "first_equivalent (surface # rest) eq_indices =
     (if miller_index surface \<in> set eq_indices then SurfaceDict surface
      else first_equivalent rest eq_indices)"

text \<open>
  \<open>get_surface_data\<close>; \<open>surface_get_document\<close> is
  \<open>self.surface_properties.get_document_by_id\<close> and \<open>equivalent_indices\<close> is
  \<open>get_symmetrically_equivalent_miller_indices\<close>. The argument \<open>miller_index\<close> is
  \<open>None\<close> or a list; \<open>None\<close> and the empty list are falsy.
\<close>

definition get_surface_data ::
  "(pyval \<Rightarrow> string \<Rightarrow> 'b world \<Rightarrow> (error + ('p, 'q) surface_doc) \<times> 'b world)
     \<Rightarrow> ('sd \<Rightarrow> int list \<Rightarrow> error + int list list)
     \<Rightarrow> (pyval \<Rightarrow> string \<Rightarrow> bool \<Rightarrow> 'b world \<Rightarrow> (error + 'sd) \<times> 'b world)
     \<Rightarrow> ('sd \<Rightarrow> bool) \<Rightarrow> ('sd \<Rightarrow> error + 'sd) \<Rightarrow> ('sd \<Rightarrow> error + 'sd)
     \<Rightarrow> facade \<Rightarrow> string \<Rightarrow> int list option \<Rightarrow> 'b world
     \<Rightarrow> (error + ('p, 'q) surface_data) \<times> 'b world" where
  "get_surface_data surface_get_document equivalent_indices
     materials_get_structure truthy conv_final conv_each self material_id miller_idx w =
     (case getattr_self self ''surface_properties'' of
        Inl e \<Rightarrow> (Inl e, w)
      | Inr client \<Rightarrow>
          (case surface_get_document client material_id w of
             (Inl e, w1) \<Rightarrow> (Inl e, w1)
           | (Inr doc, w1) \<Rightarrow>
               (case get_structure_by_material_id materials_get_structure truthy conv_final
                       conv_each self material_id True False w1 of
                  (Inl e, w2) \<Rightarrow> (Inl e, w2)
                | (Inr structure, w2) \<Rightarrow>
                    (case miller_idx of
                       Some (i # is) \<Rightarrow>
                         (case equivalent_indices structure (i # is) of
                            Inl e \<Rightarrow> (Inl e, w2)
                          | Inr eq_indices \<Rightarrow>
                              (Inr (first_equivalent (surfaces doc) eq_indices), w2))
                     | _ \<Rightarrow> (Inr (DocDict doc), w2)))))"

subsection \<open>Material identifiers\<close>

text \<open>
  A material document as the two methods below request it: only the field
  \<open>material_id\<close>. The identifier type \<open>'id\<close> is the library's \<open>MPID\<close>; \<open>str\<close> renders
  it and its comparison is the order of the type.
\<close>

record 'id material_doc =
  material_id :: 'id

definition no_material_warning :: "string \<Rightarrow> string" where
  "no_material_warning task_id =
     ''No material found containing task '' @ task_id @
     ''. Please report it if you suspect a task has gone missing.''"

text \<open>
  \<open>get_materials_id_from_task_id\<close>; \<open>materials_search\<close> is
  \<open>self.materials.search(task_ids=_, fields=_)\<close>.
\<close>

definition get_materials_id_from_task_id ::
  "(pyval \<Rightarrow> string list \<Rightarrow> string list \<Rightarrow> 'b world
       \<Rightarrow> (error + 'id material_doc list) \<times> 'b world)
     \<Rightarrow> ('id \<Rightarrow> string)
     \<Rightarrow> facade \<Rightarrow> string \<Rightarrow> 'b world \<Rightarrow> (error + string option) \<times> 'b world" where
  "get_materials_id_from_task_id materials_search str self task_id w =
     (case getattr_self self ''materials'' of
        Inl e \<Rightarrow> (Inl e, w)
      | Inr client \<Rightarrow>
          (case materials_search client [task_id] [''material_id''] w of
             (Inl e, w1) \<Rightarrow> (Inl e, w1)
           | (Inr docs, w1) \<Rightarrow>
               if length docs = 1 then (Inr (Some (str (material_id (docs ! 0)))), w1)
               else if length docs > 1 then (Inl ValueError, w1)
               else (Inr None, w1\<lparr>warnings := warnings w1 @ [no_material_warning task_id]\<rparr>)))"

text \<open>
  \<open>get_materials_ids\<close>; \<open>search_material_docs\<close> is
  \<open>self.materials.search_material_docs(chemsys_formula=_, all_fields=_, fields=_)\<close>.
  Python's \<open>sorted\<close> is a stable sort by \<open>'id\<close>'s comparison, as \<open>sort\<close> is.
\<close>

definition get_materials_ids ::
  "(pyval \<Rightarrow> string \<Rightarrow> bool \<Rightarrow> string list \<Rightarrow> 'b world
       \<Rightarrow> (error + ('id::linorder) material_doc list) \<times> 'b world)
     \<Rightarrow> facade \<Rightarrow> string \<Rightarrow> 'b world \<Rightarrow> (error + 'id list) \<times> 'b world" where
  "get_materials_ids search_material_docs self chemsys_formula w =
     (case getattr_self self ''materials'' of
        Inl e \<Rightarrow> (Inl e, w)
      | Inr client \<Rightarrow>
          (case search_material_docs client chemsys_formula False [''material_id''] w of
             (Inl e, w1) \<Rightarrow> (Inl e, w1)
           | (Inr docs, w1) \<Rightarrow> (Inr (sort (map material_id docs)), w1)))"

section \<open>The resource client and its chunked query executor\<close>

text \<open>
  Modelled from the spec: the resource client \<open>BaseRester\<close> of \<open>mp_api/core/client.py\<close>
  and the clients of \<open>mp_api/routes\<close> (\<open>search\<close>, \<open>get_document_by_id\<close>) are missing from
  the sources; only their callers and tests are present. Everything in this section
  follows sections 4.1, 4.2 and 7 of the specification.
\<close>

subsection \<open>Transport\<close>

text \<open>
  Modelled from the spec: the requests the client issues (section 4.2, steps 1, 2 and 4,
  and \<open>get_by_id\<close> of section 4.1), whose wire format is missing: a direct query (no
  chunking), the lightweight query for the ordered identifiers (with the sort), the
  query for one chunk of identifiers, and the lookup of one identifier. Criteria are
  opaque (\<open>'c\<close>); a field projection is a list of names or \<open>None\<close> for all fields.
\<close>

datatype 'c request =
    DirectQuery 'c "string list option" "string option" "bool option"
  | IdentifierQuery 'c "string option" "bool option"
  | ChunkQuery 'c "string list" "string list option"
  | ByIdQuery string "string list option"

text \<open>
  Modelled from the spec: the transport of sections 2 and 6, an external collaborator. It
  answers with documents (\<open>'d\<close>, opaque), or fails with a failure it has classified
  as transient (5xx, timeout, connection reset) or as terminal.
\<close>

datatype 'd response = Ok "'d list" | Transient | Terminal error

text \<open>
  Modelled from the spec: the transport's \<open>request\<close> capability of section 6. It is a
  state machine of the environment; the client's state pairs the transport's state with
  the log of the requests sent so far, and \<open>send\<close> issues one request.
\<close>

type_synonym ('s, 'c, 'd) transport = "'s \<Rightarrow> 'c request \<Rightarrow> 'd response \<times> 's"

type_synonym ('s, 'c) client_state = "'s \<times> 'c request list"

definition send ::
  "('s, 'c, 'd) transport \<Rightarrow> 'c request \<Rightarrow> ('s, 'c) client_state
     \<Rightarrow> 'd response \<times> ('s, 'c) client_state" where
  "send tr req st = (case tr (fst st) req of (r, s') \<Rightarrow> (r, (s', snd st @ [req])))"

subsection \<open>Chunks\<close>

text \<open>
  Modelled from the spec: step 3 of the algorithm, "partition the identifier list into
  consecutive chunks of size \<open>chunk_size\<close> (last chunk may be smaller)"; an empty list
  has no chunk. The facade's module imports a helper of this name from \<open>pymatgen\<close>,
  whose code is not part of the sources.
\<close>

function get_chunks :: "'a list \<Rightarrow> nat \<Rightarrow> 'a list list" where
  "get_chunks xs n =
     (if n = 0 \<or> xs = [] then [] else take n xs # get_chunks (drop n xs) n)"
  by pat_completeness auto
termination
  by (relation "measure (\<lambda>(xs, n). length xs)") auto

text \<open>
  Modelled from the spec: the cap of step 3, "if \<open>num_chunks\<close> is set, only the first
  \<open>num_chunks\<close> chunks are processed".
\<close>

definition cap_chunks :: "nat option \<Rightarrow> 'a list list \<Rightarrow> 'a list list" where
  "cap_chunks num_chunks cs = (case num_chunks of None \<Rightarrow> cs | Some k \<Rightarrow> take k cs)"

subsection \<open>Fetching\<close>

text \<open>
  Modelled from the spec: step 4. One chunk is requested at most \<open>tries\<close> times; a
  transient failure uses up one try, a terminal failure ends the operation at once, and
  when no try is left the operation fails with \<open>ChunkRetrievalError\<close> carrying the
  chunk's identifiers.
\<close>

fun fetch_chunk ::
  "('s, 'c, 'd) transport \<Rightarrow> 'c \<Rightarrow> string list option \<Rightarrow> string list \<Rightarrow> nat
     \<Rightarrow> ('s, 'c) client_state \<Rightarrow> (error + 'd list) \<times> ('s, 'c) client_state" where
  "fetch_chunk tr criteria flds chunk 0 st = (Inl (ChunkRetrievalError chunk), st)"
| "fetch_chunk tr criteria flds chunk (Suc tries) st =
     (case send tr (ChunkQuery criteria chunk flds) st of
        (Ok docs, st1) \<Rightarrow> (Inr docs, st1)
      | (Transient, st1) \<Rightarrow> fetch_chunk tr criteria flds chunk tries st1
      | (Terminal e, st1) \<Rightarrow> (Inl e, st1))"

text \<open>
  Modelled from the spec: steps 4 to 6. The chunks are fetched one after the other, their results concatenated in chunk
  order; the first chunk that fails ends the operation with its error and no result.
\<close>

fun fetch_chunks ::
  "('s, 'c, 'd) transport \<Rightarrow> 'c \<Rightarrow> string list option \<Rightarrow> nat \<Rightarrow> string list list
     \<Rightarrow> ('s, 'c) client_state \<Rightarrow> (error + 'd list) \<times> ('s, 'c) client_state" where
  "fetch_chunks tr criteria flds max_tries [] st = (Inr [], st)"
| "fetch_chunks tr criteria flds max_tries (chunk # rest) st =
     (case fetch_chunk tr criteria flds chunk max_tries st of
        (Inl e, st1) \<Rightarrow> (Inl e, st1)
      | (Inr docs, st1) \<Rightarrow>
          (case fetch_chunks tr criteria flds max_tries rest st1 of
             (Inl e, st2) \<Rightarrow> (Inl e, st2)
           | (Inr later, st2) \<Rightarrow> (Inr (docs @ later), st2)))"

text \<open>
  Modelled from the spec: a single request (steps 1 and 2, and \<open>get_by_id\<close>), for which
  the spec names no retry: a failure of either kind is the caller's.
\<close>

definition request_once ::
  "('s, 'c, 'd) transport \<Rightarrow> 'c request \<Rightarrow> ('s, 'c) client_state
     \<Rightarrow> (error + 'd list) \<times> ('s, 'c) client_state" where
  "request_once tr req st =
     (case send tr req st of
        (Ok docs, st1) \<Rightarrow> (Inr docs, st1)
      | (Transient, st1) \<Rightarrow> (Inl TransientServerError, st1)
      | (Terminal e, st1) \<Rightarrow> (Inl e, st1))"

text \<open>
  Modelled from the spec: \<open>search\<close> of section 4.1 with the executor of section 4.2.
  \<open>key\<close> reads a document's identifier.
\<close>

definition search ::
  "('s, 'c, 'd) transport \<Rightarrow> ('d \<Rightarrow> string) \<Rightarrow> 'c \<Rightarrow> string list option \<Rightarrow> string option
     \<Rightarrow> bool option \<Rightarrow> nat option \<Rightarrow> nat \<Rightarrow> nat \<Rightarrow> ('s, 'c) client_state
     \<Rightarrow> (error + 'd list) \<times> ('s, 'c) client_state" where
  "search tr key criteria flds sort_field ascending num_chunks chunk_size max_tries_per_chunk st =
     (if chunk_size = 0 then request_once tr (DirectQuery criteria flds sort_field ascending) st
      else
        (case request_once tr (IdentifierQuery criteria sort_field ascending) st of
           (Inl e, st1) \<Rightarrow> (Inl e, st1)
         | (Inr id_docs, st1) \<Rightarrow>
             fetch_chunks tr criteria flds max_tries_per_chunk
               (cap_chunks num_chunks (get_chunks (map key id_docs) chunk_size)) st1))"

text \<open>
  Modelled from the spec: \<open>get_by_id\<close> of section 4.1. \<open>pattern\<close> is the resource's
  identifier pattern. An empty or malformed identifier fails before anything is sent;
  an answer without a document is \<open>NotFoundError\<close>.
\<close>

definition get_by_id ::
  "('s, 'c, 'd) transport \<Rightarrow> (string \<Rightarrow> bool) \<Rightarrow> string \<Rightarrow> string list option
     \<Rightarrow> ('s, 'c) client_state \<Rightarrow> (error + 'd) \<times> ('s, 'c) client_state" where
  "get_by_id tr pattern identifier flds st =
     (if identifier = [] \<or> \<not> pattern identifier then (Inl ValidationError, st)
      else
        (case request_once tr (ByIdQuery identifier flds) st of
           (Inl e, st1) \<Rightarrow> (Inl e, st1)
         | (Inr [], st1) \<Rightarrow> (Inl NotFoundError, st1)
         | (Inr (doc # _), st1) \<Rightarrow> (Inr doc, st1)))"

subsection \<open>One run of the transport\<close>

text \<open>
  What the transport answers when the requests \<open>reqs\<close> are sent to it one after the
  other from the state \<open>s\<close>, and the state it ends in. It is the behaviour of the
  environment along one run, and states what the backend did in that run and in no
  other.
\<close>

fun replay ::
  "('s, 'c, 'd) transport \<Rightarrow> 's \<Rightarrow> 'c request list \<Rightarrow> 'd response list \<times> 's" where
  "replay tr s [] = ([], s)"
| "replay tr s (req # reqs) =
     (case tr s req of
        (r, s1) \<Rightarrow> (case replay tr s1 reqs of (rs, s2) \<Rightarrow> (r # rs, s2)))"

section \<open>Properties of the facade\<close>

text \<open>
  C4. Every convenience method of the facade that is not implemented, \<open>query\<close>,
  \<open>get_materials_id_references\<close> and \<open>get_interface_reactions\<close> among them, raises
  \<open>NotImplementedError\<close> on every input; it returns no data and leaves the world as it
  found it.
\<close>

theorem unimplemented_methods_raise:
  "query self criteria properties sort_field ascending num_chunks chunk_size all_fields flds w
     = (Inl NotImplementedError, w)
   \<and> get_materials_id_references self mid w = (Inl NotImplementedError, w)
   \<and> get_interface_reactions self reactant1 reactant2 open_el relative_mu use_hull_energy w
     = (Inl NotImplementedError, w)
   \<and> get_phonon_dos_by_material_id self mid w = (Inl NotImplementedError, w)
   \<and> submit_structures self structures public_name public_email w
     = (Inl NotImplementedError, w)
   \<and> get_stability self entries w = (Inl NotImplementedError, w)
   \<and> get_cohesive_energy self mid per_atom w = (Inl NotImplementedError, w)
   \<and> get_reaction self reactants products w = (Inl NotImplementedError, w)"
  by (simp add: query_def get_materials_id_references_def get_interface_reactions_def
      get_phonon_dos_by_material_id_def submit_structures_def get_stability_def
      get_cohesive_energy_def get_reaction_def)

subsection \<open>The session is closed once\<close>

text \<open>
  C5. A \<open>with\<close> scope over a facade that holds the session \<open>s\<close> ends, whether its block
  returned or raised (\<open>r\<close> is either), with that outcome passed on and the session closed
  exactly once more than before the scope: \<open>__exit__\<close> closes it, once, on every way out.
  The block itself is taken not to close the session.
\<close>

theorem session_closed_exactly_once:
  assumes sess: "self ''session'' = Some (VSession s)"
    and body: "body (MPRester_enter self) w = (r, w1)"
    and live: "s < length (sessions w1)"
    and frame: "close_count s w1 = close_count s w"
  shows "\<exists>w2. with_scope self body w = (r, w2)
           \<and> close_count s w2 = Suc (close_count s w)"
  using assms
  by (simp add: with_scope_def MPRester_exit_def session_close_def close_count_def)

theorem session_closed_exactly_once_witness:
  "(\<exists>w2. with_scope [''session'' \<mapsto> VSession 0] (\<lambda>mpr w. (Inl ValueError :: error + unit, w))
            \<lparr>sessions = [0], warnings = [], remote = ()\<rparr> = (Inl ValueError, w2)
          \<and> close_count 0 w2 = 1)
   \<and> (\<exists>w2. with_scope [''session'' \<mapsto> VSession 0] (\<lambda>mpr w. (Inr () :: error + unit, w))
            \<lparr>sessions = [0], warnings = [], remote = ()\<rparr> = (Inr (), w2)
          \<and> close_count 0 w2 = 1)"
  using
    session_closed_exactly_once [where self = "[''session'' \<mapsto> VSession 0]" and s = 0
      and body = "\<lambda>mpr w. (Inl ValueError :: error + unit, w)"
      and w = "\<lparr>sessions = [0], warnings = [], remote = ()\<rparr>"
      and r = "Inl ValueError" and ?w1.0 = "\<lparr>sessions = [0], warnings = [], remote = ()\<rparr>"]
    session_closed_exactly_once [where self = "[''session'' \<mapsto> VSession 0]" and s = 0
      and body = "\<lambda>mpr w. (Inr () :: error + unit, w)"
      and w = "\<lparr>sessions = [0], warnings = [], remote = ()\<rparr>"
      and r = "Inr ()" and ?w1.0 = "\<lparr>sessions = [0], warnings = [], remote = ()\<rparr>"]
  by (auto simp: close_count_def)

subsection \<open>From a task to its material\<close>

text \<open>
  C8. When the search of the materials client returns, \<open>get_materials_id_from_task_id\<close>
  returns the one document's \<open>material_id\<close> as a string when there is exactly one
  document, returns \<open>None\<close> after a warning and without raising when there is none, and
  raises \<open>ValueError\<close> when there is more than one.
\<close>

theorem material_id_from_task_id_cases:
  assumes "self ''materials'' = Some client"
    and "materials_search client [task_id] [''material_id''] w = (Inr docs, w1)"
  shows "(length docs = 1 \<longrightarrow>
            get_materials_id_from_task_id materials_search str self task_id w
              = (Inr (Some (str (material_id (hd docs)))), w1))
       \<and> (length docs = 0 \<longrightarrow>
            get_materials_id_from_task_id materials_search str self task_id w
              = (Inr None, w1\<lparr>warnings := warnings w1 @ [no_material_warning task_id]\<rparr>))
       \<and> (length docs > 1 \<longrightarrow>
            get_materials_id_from_task_id materials_search str self task_id w
              = (Inl ValueError, w1))"
  using assms
  by (cases docs) (auto simp: get_materials_id_from_task_id_def getattr_self_def)

theorem material_id_from_task_id_cases_witness:
  "get_materials_id_from_task_id
      (\<lambda>client task_ids flds w. (Inr [\<lparr>material_id = 149::nat\<rparr>], w))
      (\<lambda>n. ''mp-149'') [''materials'' \<mapsto> VNone] ''mp-149''
      \<lparr>sessions = [], warnings = [], remote = ()\<rparr>
     = (Inr (Some ''mp-149''), \<lparr>sessions = [], warnings = [], remote = ()\<rparr>)
   \<and> get_materials_id_from_task_id
      (\<lambda>client task_ids flds w. (Inr ([] :: nat material_doc list), w))
      (\<lambda>n. ''mp-149'') [''materials'' \<mapsto> VNone] ''mp-0''
      \<lparr>sessions = [], warnings = [], remote = ()\<rparr>
     = (Inr None, \<lparr>sessions = [], warnings = [no_material_warning ''mp-0''], remote = ()\<rparr>)
   \<and> get_materials_id_from_task_id
      (\<lambda>client task_ids flds w. (Inr [\<lparr>material_id = 1::nat\<rparr>, \<lparr>material_id = 2\<rparr>], w))
      (\<lambda>n. ''mp-149'') [''materials'' \<mapsto> VNone] ''mp-1''
      \<lparr>sessions = [], warnings = [], remote = ()\<rparr>
     = (Inl ValueError, \<lparr>sessions = [], warnings = [], remote = ()\<rparr>)"
  using
    material_id_from_task_id_cases [where self = "[''materials'' \<mapsto> VNone]" and client = VNone
      and materials_search = "\<lambda>client task_ids flds w. (Inr [\<lparr>material_id = 149::nat\<rparr>], w)"
      and task_id = "''mp-149''" and w = "\<lparr>sessions = [], warnings = [], remote = ()\<rparr>"
      and docs = "[\<lparr>material_id = 149::nat\<rparr>]"
      and ?w1.0 = "\<lparr>sessions = [], warnings = [], remote = ()\<rparr>" and str = "\<lambda>n. ''mp-149''"]
    material_id_from_task_id_cases [where self = "[''materials'' \<mapsto> VNone]" and client = VNone
      and materials_search = "\<lambda>client task_ids flds w. (Inr ([] :: nat material_doc list), w)"
      and task_id = "''mp-0''" and w = "\<lparr>sessions = [], warnings = [], remote = ()\<rparr>"
      and docs = "[]"
      and ?w1.0 = "\<lparr>sessions = [], warnings = [], remote = ()\<rparr>" and str = "\<lambda>n. ''mp-149''"]
    material_id_from_task_id_cases [where self = "[''materials'' \<mapsto> VNone]" and client = VNone
      and materials_search =
        "\<lambda>client task_ids flds w. (Inr [\<lparr>material_id = 1::nat\<rparr>, \<lparr>material_id = 2\<rparr>], w)"
      and task_id = "''mp-1''" and w = "\<lparr>sessions = [], warnings = [], remote = ()\<rparr>"
      and docs = "[\<lparr>material_id = 1::nat\<rparr>, \<lparr>material_id = 2\<rparr>]"
      and ?w1.0 = "\<lparr>sessions = [], warnings = [], remote = ()\<rparr>" and str = "\<lambda>n. ''mp-149''"]
  by simp

subsection \<open>Surface data\<close>

lemma first_equivalent_none:
  "\<forall>surface \<in> set ss. miller_index surface \<notin> set eq_indices
     \<Longrightarrow> first_equivalent ss eq_indices = PyNone"
  by (induction ss) auto

lemma first_equivalent_not_document: "first_equivalent ss eq_indices \<noteq> DocDict d"
  by (induction ss) auto

text \<open>
  C9. When the surface document and the structure have been fetched: for a non-empty
  \<open>miller_index\<close> none of whose symmetrically equivalent indices is the Miller index of
  a surface of the document, \<open>get_surface_data\<close> returns \<open>None\<close>; and it returns the
  document's dict exactly when \<open>miller_index\<close> is \<open>None\<close> or empty.
\<close>

theorem surface_data_none_or_document:
  assumes "self ''surface_properties'' = Some sclient"
    and "surface_get_document sclient mid w = (Inr doc, w1)"
    and "self ''materials'' = Some mclient"
    and "materials_get_structure mclient mid True w1 = (Inr strct, w2)"
  shows "(\<forall>i is eq_indices.
            miller_idx = Some (i # is)
            \<and> equivalent_indices strct (i # is) = Inr eq_indices
            \<and> (\<forall>surface \<in> set (surfaces doc). miller_index surface \<notin> set eq_indices)
            \<longrightarrow> get_surface_data surface_get_document equivalent_indices
                  materials_get_structure truthy conv_final conv_each self mid miller_idx w
                = (Inr PyNone, w2))
       \<and> (get_surface_data surface_get_document equivalent_indices
              materials_get_structure truthy conv_final conv_each self mid miller_idx w
            = (Inr (DocDict doc), w2)
          \<longleftrightarrow> miller_idx = None \<or> miller_idx = Some [])"
proof -
  have st: "get_structure_by_material_id materials_get_structure truthy conv_final conv_each
              self mid True False w1 = (Inr strct, w2)"
    using assms(3,4) by (simp add: get_structure_by_material_id_def getattr_self_def)
  show ?thesis
  proof (cases miller_idx)
    case None
    with assms(1,2) st show ?thesis
      by (simp add: get_surface_data_def getattr_self_def)
  next
    case (Some l)
    show ?thesis
    proof (cases l)
      case Nil
      with Some assms(1,2) st show ?thesis
        by (simp add: get_surface_data_def getattr_self_def)
    next
      case (Cons i "is")
      with Some assms(1,2) st show ?thesis
        by (cases "equivalent_indices strct (i # is)")
           (simp_all add: get_surface_data_def getattr_self_def first_equivalent_none
              first_equivalent_not_document)
    qed
  qed
qed

theorem surface_data_none_or_document_witness:
  "get_surface_data
      (\<lambda>client mid w. (Inr \<lparr>surfaces = [\<lparr>miller_index = [1, 0, 0], entry_fields = ()\<rparr>],
                                doc_fields = ()\<rparr>, w))
      (\<lambda>structure mi. Inr [mi])
      (\<lambda>client mid final w. (Inr (), w)) (\<lambda>sd. True) Inr Inr
      [''surface_properties'' \<mapsto> VNone, ''materials'' \<mapsto> VNone] ''mp-1'' (Some [1, 1, 1])
      \<lparr>sessions = [], warnings = [], remote = ()\<rparr>
     = (Inr PyNone, \<lparr>sessions = [], warnings = [], remote = ()\<rparr>)
   \<and> get_surface_data
      (\<lambda>client mid w. (Inr \<lparr>surfaces = [\<lparr>miller_index = [1, 0, 0], entry_fields = ()\<rparr>],
                                doc_fields = ()\<rparr>, w))
      (\<lambda>structure mi. Inr [mi])
      (\<lambda>client mid final w. (Inr (), w)) (\<lambda>sd. True) Inr Inr
      [''surface_properties'' \<mapsto> VNone, ''materials'' \<mapsto> VNone] ''mp-1'' (Some [])
      \<lparr>sessions = [], warnings = [], remote = ()\<rparr>
     = (Inr (DocDict \<lparr>surfaces = [\<lparr>miller_index = [1, 0, 0], entry_fields = ()\<rparr>],
                       doc_fields = ()\<rparr>),
        \<lparr>sessions = [], warnings = [], remote = ()\<rparr>)"
  using
    surface_data_none_or_document [where
      self = "[''surface_properties'' \<mapsto> VNone, ''materials'' \<mapsto> VNone]"
      and sclient = VNone and mclient = VNone and mid = "''mp-1''"
      and surface_get_document =
        "\<lambda>client mid w. (Inr \<lparr>surfaces = [\<lparr>miller_index = [1, 0, 0], entry_fields = ()\<rparr>],
                                   doc_fields = ()\<rparr>, w)"
      and doc = "\<lparr>surfaces = [\<lparr>miller_index = [1, 0, 0], entry_fields = ()\<rparr>], doc_fields = ()\<rparr>"
      and materials_get_structure = "\<lambda>client mid final w. (Inr (), w)"
      and strct = "()" and equivalent_indices = "\<lambda>structure mi. Inr [mi]"
      and truthy = "\<lambda>sd. True" and conv_final = Inr and conv_each = Inr
      and w = "\<lparr>sessions = [], warnings = [], remote = ()\<rparr>"
      and ?w1.0 = "\<lparr>sessions = [], warnings = [], remote = ()\<rparr>"
      and ?w2.0 = "\<lparr>sessions = [], warnings = [], remote = ()\<rparr>"
      and miller_idx = "Some [1, 1, 1]"]
    surface_data_none_or_document [where
      self = "[''surface_properties'' \<mapsto> VNone, ''materials'' \<mapsto> VNone]"
      and sclient = VNone and mclient = VNone and mid = "''mp-1''"
      and surface_get_document =
        "\<lambda>client mid w. (Inr \<lparr>surfaces = [\<lparr>miller_index = [1, 0, 0], entry_fields = ()\<rparr>],
                                   doc_fields = ()\<rparr>, w)"
      and doc = "\<lparr>surfaces = [\<lparr>miller_index = [1, 0, 0], entry_fields = ()\<rparr>], doc_fields = ()\<rparr>"
      and materials_get_structure = "\<lambda>client mid final w. (Inr (), w)"
      and strct = "()" and equivalent_indices = "\<lambda>structure mi. Inr [mi]"
      and truthy = "\<lambda>sd. True" and conv_final = Inr and conv_each = Inr
      and w = "\<lparr>sessions = [], warnings = [], remote = ()\<rparr>"
      and ?w1.0 = "\<lparr>sessions = [], warnings = [], remote = ()\<rparr>"
      and ?w2.0 = "\<lparr>sessions = [], warnings = [], remote = ()\<rparr>"
      and miller_idx = "Some []"]
  by simp

subsection \<open>Material identifiers of a formula\<close>

text \<open>
  C10. When the search of the materials client returns, \<open>get_materials_ids\<close> returns the
  documents' material identifiers, each as often as it was found, in ascending order.
\<close>

theorem materials_ids_sorted:
  assumes "self ''materials'' = Some client"
    and "search_material_docs client chemsys_formula False [''material_id''] w = (Inr docs, w1)"
  shows "\<exists>ids. get_materials_ids search_material_docs self chemsys_formula w = (Inr ids, w1)
           \<and> sorted ids \<and> mset ids = mset (map material_id docs)"
  using assms by (simp add: get_materials_ids_def getattr_self_def)

theorem materials_ids_sorted_witness:
  "\<exists>ids. get_materials_ids
       (\<lambda>client f a flds w. (Inr [\<lparr>material_id = 30::nat\<rparr>, \<lparr>material_id = 4\<rparr>, \<lparr>material_id = 149\<rparr>], w))
       [''materials'' \<mapsto> VNone] ''Fe2O3'' \<lparr>sessions = [], warnings = [], remote = ()\<rparr>
     = (Inr ids, \<lparr>sessions = [], warnings = [], remote = ()\<rparr>)
     \<and> sorted ids \<and> mset ids = {#30, 4, 149#}"
  using
    materials_ids_sorted [where self = "[''materials'' \<mapsto> VNone]" and client = VNone
      and search_material_docs =
        "\<lambda>client f a flds w. (Inr [\<lparr>material_id = 30::nat\<rparr>, \<lparr>material_id = 4\<rparr>, \<lparr>material_id = 149\<rparr>], w)"
      and chemsys_formula = "''Fe2O3''" and w = "\<lparr>sessions = [], warnings = [], remote = ()\<rparr>"
      and docs = "[\<lparr>material_id = 30::nat\<rparr>, \<lparr>material_id = 4\<rparr>, \<lparr>material_id = 149\<rparr>]"
      and ?w1.0 = "\<lparr>sessions = [], warnings = [], remote = ()\<rparr>"]
  by simp

subsection \<open>One client per resource\<close>

lemma wire_resters_other:
  "wire_resters cs k e u self = Inr self' \<Longrightarrow> n \<notin> attr_name ` set cs
     \<Longrightarrow> n \<noteq> ''_all_resters'' \<Longrightarrow> self' n = self n"
proof (induction cs arbitrary: self)
  case Nil
  then show ?case by simp
next
  case (Cons c cs)
  from Cons.prems(1) obtain sess rs where
    s: "self ''session'' = Some sess" and r: "self ''_all_resters'' = Some (VList rs)"
    by (auto simp: Let_def split: option.splits pyval.splits)
  let ?r = "VRester c k e u sess"
  let ?self1 = "(self(''_all_resters'' \<mapsto> VList (rs @ [?r])))(attr_name c \<mapsto> ?r)"
  from Cons.prems(1) s r have run: "wire_resters cs k e u ?self1 = Inr self'"
    by (simp add: Let_def)
  from Cons.prems(2) have "n \<notin> attr_name ` set cs"
    by simp
  from Cons.IH [OF run this Cons.prems(3)] have "self' n = ?self1 n" .
  with Cons.prems(2,3) show ?case by simp
qed

lemma wire_resters_wired:
  "wire_resters cs k e u self = Inr self' \<Longrightarrow> self ''session'' = Some sv
     \<Longrightarrow> self ''_all_resters'' = Some (VList rs)
     \<Longrightarrow> distinct (map attr_name cs)
     \<Longrightarrow> \<forall>c \<in> set cs. attr_name c \<noteq> ''session'' \<and> attr_name c \<noteq> ''_all_resters''
     \<Longrightarrow> self' ''session'' = Some sv
         \<and> self' ''_all_resters'' = Some (VList (rs @ map (\<lambda>c. VRester c k e u sv) cs))
         \<and> (\<forall>c \<in> set cs. self' (attr_name c) = Some (VRester c k e u sv))"
proof (induction cs arbitrary: self rs)
  case Nil
  then show ?case by simp
next
  case (Cons c cs)
  let ?r = "VRester c k e u sv"
  let ?self1 = "(self(''_all_resters'' \<mapsto> VList (rs @ [?r])))(attr_name c \<mapsto> ?r)"
  from Cons.prems have run: "wire_resters cs k e u ?self1 = Inr self'"
    by (simp add: Let_def)
  from Cons.prems have s1: "?self1 ''session'' = Some sv"
    and r1: "?self1 ''_all_resters'' = Some (VList (rs @ [?r]))"
    by auto
  from Cons.prems have d: "distinct (map attr_name cs)"
    and n: "\<forall>c \<in> set cs. attr_name c \<noteq> ''session'' \<and> attr_name c \<noteq> ''_all_resters''"
    by auto
  note ih = Cons.IH [OF run s1 r1 d n]
  from Cons.prems have "attr_name c \<notin> attr_name ` set cs" "attr_name c \<noteq> ''_all_resters''"
    by auto
  with wire_resters_other [OF run] have "self' (attr_name c) = ?self1 (attr_name c)"
    by blast
  with ih show ?case by simp
qed

lemma set_aliases_other:
  "set_aliases al self = Inr self' \<Longrightarrow> n \<notin> fst ` set al \<Longrightarrow> self' n = self n"
proof (induction al arbitrary: self)
  case Nil
  then show ?case by simp
next
  case (Cons a al)
  obtain nm client meth where a: "a = (nm, client, meth)"
    by (cases a) auto
  from Cons.prems(1) a obtain m where run: "set_aliases al (self(nm \<mapsto> m)) = Inr self'"
    by (auto split: sum.splits)
  from Cons.prems(2) have "n \<notin> fst ` set al"
    by simp
  from Cons.IH [OF run this] have "self' n = (self(nm \<mapsto> m)) n" .
  with Cons.prems(2) a show ?case
    by simp
qed

text \<open>
  C7. A construction that succeeds, over resource classes whose attribute names (the
  suffix with \<open>/\<close> replaced by \<open>_\<close>) are pairwise different and are none of the names
  the constructor assigns itself, has created one session and exactly one client per
  class, in the order of the classes; each client is the value of the facade's attribute
  of its class's name, and every client was built with the facade's one session.
\<close>

theorem one_client_per_resource:
  assumes init: "MPRester_init subclasses api_key endpoint notify_db_version include_user_agent w
                   = (Inr self, w')"
    and names: "distinct (map attr_name subclasses)"
    and free: "\<forall>cls \<in> set subclasses.
                 attr_name cls \<notin> {''session'', ''_all_resters''} \<union> fst ` set aliases"
  shows "self ''session'' = Some (VSession (length (sessions w)))
       \<and> sessions w' = sessions w @ [0]
       \<and> self ''_all_resters''
           = Some (VList (map (\<lambda>cls. VRester cls api_key endpoint include_user_agent
                                      (VSession (length (sessions w)))) subclasses))
       \<and> (\<forall>cls \<in> set subclasses.
             self (attr_name cls)
               = Some (VRester cls api_key endpoint include_user_agent
                         (VSession (length (sessions w)))))"
proof -
  let ?s = "length (sessions w)"
  let ?self0 = "[''api_key'' \<mapsto> api_key, ''endpoint'' \<mapsto> VStr endpoint,
                 ''session'' \<mapsto> VSession ?s, ''_all_resters'' \<mapsto> VList []]"
  from init obtain self1 where
    wire: "wire_resters subclasses api_key endpoint include_user_agent ?self0 = Inr self1"
    and al: "set_aliases aliases self1 = Inr self"
    and w': "w' = w\<lparr>sessions := sessions w @ [0]\<rparr>"
    by (auto simp: MPRester_init_def create_session_def split: sum.splits)
  have s0: "?self0 ''session'' = Some (VSession ?s)" by simp
  have r0: "?self0 ''_all_resters'' = Some (VList [])" by simp
  from free have n: "\<forall>c \<in> set subclasses. attr_name c \<noteq> ''session'' \<and> attr_name c \<noteq> ''_all_resters''"
    by auto
  note wired = wire_resters_wired [OF wire s0 r0 names n]
  have keep: "self n = self1 n" if "n \<notin> fst ` set aliases" for n
    using set_aliases_other [OF al that] .
  have "self ''session'' = self1 ''session''" "self ''_all_resters'' = self1 ''_all_resters''"
    by (rule keep, simp add: aliases_def)+
  moreover have "\<forall>cls \<in> set subclasses. self (attr_name cls) = self1 (attr_name cls)"
    using free keep by auto
  ultimately show ?thesis using wired w' by simp
qed

theorem one_client_per_resource_witness:
  "\<exists>self w'.
     MPRester_init
       [\<lparr>cls_name = ''MaterialsRester'', suffix = ''materials'', methods = [''find_structure'']\<rparr>,
        \<lparr>cls_name = ''BandstructureRester'', suffix = ''electronic_structure/bandstructure'',
           methods = [''get_bandstructure_from_material_id'']\<rparr>,
        \<lparr>cls_name = ''DosRester'', suffix = ''electronic_structure/dos'',
           methods = [''get_dos_from_material_id'']\<rparr>,
        \<lparr>cls_name = ''ChargeDensityRester'', suffix = ''charge_density'',
           methods = [''get_charge_density_from_calculation_id'',
                      ''get_charge_density_calculation_details'',
                      ''get_charge_density_calculation_ids_from_material_id'']\<rparr>]
       (VStr ''key'') ''https://api.materialsproject.org/'' True True
       \<lparr>sessions = [], warnings = [], remote = ()\<rparr> = (Inr self, w')
     \<and> sessions w' = [0]
     \<and> self ''session'' = Some (VSession 0)
     \<and> self ''electronic_structure_dos''
         = Some (VRester \<lparr>cls_name = ''DosRester'', suffix = ''electronic_structure/dos'',
                          methods = [''get_dos_from_material_id'']\<rparr>
                   (VStr ''key'') ''https://api.materialsproject.org/'' True (VSession 0))"
proof -
  let ?reg = "[\<lparr>cls_name = ''MaterialsRester'', suffix = ''materials'', methods = [''find_structure'']\<rparr>,
        \<lparr>cls_name = ''BandstructureRester'', suffix = ''electronic_structure/bandstructure'',
           methods = [''get_bandstructure_from_material_id'']\<rparr>,
        \<lparr>cls_name = ''DosRester'', suffix = ''electronic_structure/dos'',
           methods = [''get_dos_from_material_id'']\<rparr>,
        \<lparr>cls_name = ''ChargeDensityRester'', suffix = ''charge_density'',
           methods = [''get_charge_density_from_calculation_id'',
                      ''get_charge_density_calculation_details'',
                      ''get_charge_density_calculation_ids_from_material_id'']\<rparr>]"
  let ?w = "\<lparr>sessions = [], warnings = [], remote = ()\<rparr>"
  have "\<exists>self w'. MPRester_init ?reg (VStr ''key'') ''https://api.materialsproject.org/''
                     True True ?w = (Inr self, w')"
    by (simp add: MPRester_init_def create_session_def attr_name_def aliases_def
        getattr_self_def getattr_val_def Let_def)
  then obtain self w' where
    init: "MPRester_init ?reg (VStr ''key'') ''https://api.materialsproject.org/''
             True True ?w = (Inr self, w')"
    by blast
  have names: "distinct (map attr_name ?reg)"
    by (simp add: attr_name_def)
  have free: "\<forall>cls \<in> set ?reg.
                attr_name cls \<notin> {''session'', ''_all_resters''} \<union> fst ` set aliases"
    by (simp add: attr_name_def aliases_def)
  from one_client_per_resource [OF init names free] init show ?thesis
    by (auto simp: attr_name_def)
qed

section \<open>Properties of the resource client\<close>

subsection \<open>Chunks\<close>

declare get_chunks.simps [simp del]

lemma get_chunks_Nil: "get_chunks [] n = []"
  by (simp add: get_chunks.simps)

lemma get_chunks_step:
  "0 < n \<Longrightarrow> xs \<noteq> [] \<Longrightarrow> get_chunks xs n = take n xs # get_chunks (drop n xs) n"
  by (subst get_chunks.simps) simp

lemma concat_get_chunks: "0 < n \<Longrightarrow> concat (get_chunks xs n) = xs"
proof (induction xs n rule: get_chunks.induct)
  case (1 xs n)
  show ?case
  proof (cases "xs = []")
    case True
    then show ?thesis by (simp add: get_chunks_Nil)
  next
    case False
    with "1" show ?thesis by (simp add: get_chunks_step)
  qed
qed

lemma get_chunks_lengths:
  "c \<in> set (get_chunks xs n) \<Longrightarrow> 0 < length c \<and> length c \<le> n"
proof (induction xs n rule: get_chunks.induct)
  case (1 xs n)
  show ?case
  proof (cases "n = 0 \<or> xs = []")
    case True
    with "1.prems" show ?thesis by (auto simp: get_chunks.simps)
  next
    case False
    with "1" show ?thesis by (auto simp: get_chunks_step)
  qed
qed

lemma get_chunks_butlast:
  "c \<in> set (butlast (get_chunks xs n)) \<Longrightarrow> length c = n"
proof (induction xs n rule: get_chunks.induct)
  case (1 xs n)
  show ?case
  proof (cases "n = 0 \<or> xs = []")
    case True
    with "1.prems" show ?thesis by (auto simp: get_chunks.simps)
  next
    case False
    then have n: "0 < n" and xs: "xs \<noteq> []" by auto
    show ?thesis
    proof (cases "get_chunks (drop n xs) n = []")
      case True
      with "1.prems" n xs show ?thesis by (simp add: get_chunks_step)
    next
      case rest: False
      then have "drop n xs \<noteq> []" by (auto simp: get_chunks_Nil)
      then have "n < length xs" by simp
      with "1" False rest n xs show ?thesis by (auto simp: get_chunks_step)
    qed
  qed
qed

lemma concat_take_get_chunks:
  "0 < n \<Longrightarrow> concat (take k (get_chunks xs n)) = take (k * n) xs"
proof (induction k arbitrary: xs)
  case 0
  then show ?case by simp
next
  case (Suc k)
  show ?case
  proof (cases "xs = []")
    case True
    then show ?thesis by (simp add: get_chunks_Nil)
  next
    case False
    with Suc show ?thesis
      by (simp add: get_chunks_step take_add)
  qed
qed

lemma get_chunks_2500:
  assumes "length xs = 2500"
  shows "map length (get_chunks xs 1000) = [1000, 1000, 500]"
proof -
  let ?d1 = "drop 1000 xs"
  let ?d2 = "drop 1000 ?d1"
  let ?d3 = "drop 1000 ?d2"
  have c1: "get_chunks xs 1000 = take 1000 xs # get_chunks ?d1 1000"
    by (rule get_chunks_step) (use assms in auto)
  have c2: "get_chunks ?d1 1000 = take 1000 ?d1 # get_chunks ?d2 1000"
    by (rule get_chunks_step) (use assms in auto)
  have c3: "get_chunks ?d2 1000 = take 1000 ?d2 # get_chunks ?d3 1000"
    by (rule get_chunks_step) (use assms in auto)
  have "?d3 = []"
    using assms by simp
  then have c4: "get_chunks ?d3 1000 = []"
    by (simp only: get_chunks_Nil)
  show ?thesis
    unfolding c1 c2 c3 c4 using assms by simp
qed

subsection \<open>Fetching\<close>

lemma send_eq:
  "tr (fst st) req = (r, s') \<Longrightarrow> send tr req st = (r, (s', snd st @ [req]))"
  by (simp add: send_def)

lemma request_once_ok:
  "tr (fst st) req = (Ok docs, s') \<Longrightarrow> request_once tr req st = (Inr docs, (s', snd st @ [req]))"
  by (simp add: request_once_def send_eq)

lemma list_all2_lengths:
  "list_all2 (\<lambda>chunk docs. length docs = length chunk) chunks dss
     \<Longrightarrow> length (concat dss) = length (concat chunks)"
  by (induction rule: list_all2_induct) auto

lemma list_all2_keys:
  "list_all2 (\<lambda>chunk docs. map key docs = chunk) chunks dss
     \<Longrightarrow> map key (concat dss) = concat chunks"
  by (induction rule: list_all2_induct) auto

lemma length_replay: "length (fst (replay tr s reqs)) = length reqs"
proof (induction reqs arbitrary: s)
  case Nil
  show ?case by simp
next
  case (Cons req reqs)
  obtain r s1 where first: "tr s req = (r, s1)"
    by (cases "tr s req")
  obtain rs s2 where rest: "replay tr s1 reqs = (rs, s2)"
    by (cases "replay tr s1 reqs")
  from Cons.IH [of s1] rest have "length rs = length reqs"
    by simp
  with first rest show ?case
    by simp
qed

lemma replay_append:
  "replay tr s (xs @ ys) =
     (case replay tr s xs of
        (rs, s1) \<Rightarrow> (case replay tr s1 ys of (rs', s2) \<Rightarrow> (rs @ rs', s2)))"
  by (induction xs arbitrary: s) (auto split: prod.splits)

lemma replay_split:
  assumes "replay tr s (xs @ ys) = (as @ bs, s')" and "length as = length xs"
  shows "\<exists>s1. replay tr s xs = (as, s1) \<and> replay tr s1 ys = (bs, s')"
proof -
  obtain rs s1 where x: "replay tr s xs = (rs, s1)"
    by (cases "replay tr s xs")
  obtain rs' s2 where y: "replay tr s1 ys = (rs', s2)"
    by (cases "replay tr s1 ys")
  from x have "length rs = length xs"
    using length_replay [of tr s xs] by simp
  with assms(2) have l: "length as = length rs"
    by simp
  from assms(1) x y have "as @ bs = rs @ rs'" and "s' = s2"
    by (simp_all add: replay_append)
  with l have "as = rs" "bs = rs'"
    by simp_all
  with x y \<open>s' = s2\<close> show ?thesis
    by simp
qed

lemma fetch_chunk_retry:
  assumes "replay tr s (replicate (Suc k) (ChunkQuery criteria chunk flds))
             = (replicate k Transient @ [Ok docs], s')"
    and "k < tries"
  shows "fetch_chunk tr criteria flds chunk tries (s, log)
           = (Inr docs, (s', log @ replicate (Suc k) (ChunkQuery criteria chunk flds)))"
  using assms
proof (induction k arbitrary: s log tries)
  case 0
  then obtain t where t: "tries = Suc t"
    by (cases tries) auto
  from "0.prems"(1) show ?case
    unfolding t by (auto simp: send_def split: prod.splits)
next
  case (Suc k)
  then obtain t where t: "tries = Suc t" and kt: "k < t"
    by (cases tries) auto
  let ?req = "ChunkQuery criteria chunk flds"
  obtain r s1 where first: "tr s ?req = (r, s1)"
    by (cases "tr s ?req")
  obtain rs s2 where rest: "replay tr s1 (replicate (Suc k) ?req) = (rs, s2)"
    by (cases "replay tr s1 (replicate (Suc k) ?req)")
  from Suc.prems(1) first rest have r: "r = Transient"
    and rs: "rs = replicate k Transient @ [Ok docs]" and s2: "s2 = s'"
    by simp_all
  from Suc.IH [OF _ kt, of s1 "log @ [?req]"] rest rs s2
  have "fetch_chunk tr criteria flds chunk t (s1, log @ [?req])
          = (Inr docs, (s', (log @ [?req]) @ replicate (Suc k) ?req))"
    by simp
  with first r show ?case
    unfolding t by (simp add: send_def replicate_app_Cons_same)
qed

lemma fetch_chunk_out_of_tries:
  assumes "replay tr s (replicate tries (ChunkQuery criteria chunk flds))
             = (replicate tries Transient, s')"
  shows "fetch_chunk tr criteria flds chunk tries (s, log)
           = (Inl (ChunkRetrievalError chunk),
              (s', log @ replicate tries (ChunkQuery criteria chunk flds)))"
  using assms
proof (induction tries arbitrary: s log)
  case 0
  then show ?case by simp
next
  case (Suc tries)
  let ?req = "ChunkQuery criteria chunk flds"
  obtain r s1 where first: "tr s ?req = (r, s1)"
    by (cases "tr s ?req")
  obtain rs s2 where rest: "replay tr s1 (replicate tries ?req) = (rs, s2)"
    by (cases "replay tr s1 (replicate tries ?req)")
  from Suc.prems first rest have r: "r = Transient"
    and rs: "rs = replicate tries Transient" and s2: "s2 = s'"
    by simp_all
  from Suc.IH [of s1 "log @ [?req]"] rest rs s2
  have "fetch_chunk tr criteria flds chunk tries (s1, log @ [?req])
          = (Inl (ChunkRetrievalError chunk), (s', (log @ [?req]) @ replicate tries ?req))"
    by simp
  with first r show ?case
    by (simp add: send_def replicate_app_Cons_same)
qed

lemma replay_first:
  assumes "replay tr s (req # reqs) = (r # rs, s')"
  shows "\<exists>s1. tr s req = (r, s1) \<and> replay tr s1 reqs = (rs, s')"
proof -
  obtain r0 s1 where first: "tr s req = (r0, s1)"
    by (cases "tr s req")
  obtain rs0 s2 where rest: "replay tr s1 reqs = (rs0, s2)"
    by (cases "replay tr s1 reqs")
  from assms first rest show ?thesis
    by simp
qed

lemma fetch_chunks_schedule:
  assumes "length ks = length chunks" and "length dss = length chunks"
    and "\<forall>k \<in> set ks. k < tries"
    and "replay tr s
           (concat (map2 (\<lambda>chunk k. replicate (Suc k) (ChunkQuery criteria chunk flds)) chunks ks))
           = (concat (map2 (\<lambda>docs k. replicate k Transient @ [Ok docs]) dss ks), s')"
  shows "fetch_chunks tr criteria flds tries chunks (s, log)
           = (Inr (concat dss),
              (s', log @ concat (map2 (\<lambda>chunk k. replicate (Suc k) (ChunkQuery criteria chunk flds))
                                  chunks ks)))"
  using assms
proof (induction chunks arbitrary: ks dss s log)
  case Nil
  then show ?case by simp
next
  case (Cons chunk chunks)
  from Cons.prems(1) obtain k ks' where ks: "ks = k # ks'" and lk: "length ks' = length chunks"
    by (cases ks) auto
  from Cons.prems(2) obtain docs dss' where dss: "dss = docs # dss'"
    and ld: "length dss' = length chunks"
    by (cases dss) auto
  let ?req = "ChunkQuery criteria chunk flds"
  let ?R = "concat (map2 (\<lambda>chunk k. replicate (Suc k) (ChunkQuery criteria chunk flds)) chunks ks')"
  let ?A = "concat (map2 (\<lambda>docs k. replicate k Transient @ [Ok docs]) dss' ks')"
  from Cons.prems(4) have whole:
    "replay tr s (replicate (Suc k) ?req @ ?R) = ((replicate k Transient @ [Ok docs]) @ ?A, s')"
    unfolding ks dss by simp
  have len: "length (replicate k Transient @ [Ok docs]) = length (replicate (Suc k) ?req)"
    by simp
  from replay_split [OF whole len] obtain s1 where
    h: "replay tr s (replicate (Suc k) ?req) = (replicate k Transient @ [Ok docs], s1)"
    and t: "replay tr s1 ?R = (?A, s')"
    by (elim exE conjE)
  from Cons.prems(3) have kt: "k < tries" and kts: "\<forall>k \<in> set ks'. k < tries"
    unfolding ks by simp_all
  have one: "fetch_chunk tr criteria flds chunk tries (s, log)
               = (Inr docs, (s1, log @ replicate (Suc k) ?req))"
    using h kt by (rule fetch_chunk_retry)
  have more: "fetch_chunks tr criteria flds tries chunks (s1, log @ replicate (Suc k) ?req)
                = (Inr (concat dss'), (s', (log @ replicate (Suc k) ?req) @ ?R))"
    using lk ld kts t by (rule Cons.IH)
  show ?case
    unfolding ks dss using one more by simp
qed

lemma fetch_chunks_fail_schedule:
  assumes "length ks = length before" and "length dss = length before"
    and "\<forall>k \<in> set ks. k < tries"
    and "replay tr s
           (concat (map2 (\<lambda>chunk k. replicate (Suc k) (ChunkQuery criteria chunk flds)) before ks)
              @ replicate tries (ChunkQuery criteria failing flds))
           = (concat (map2 (\<lambda>docs k. replicate k Transient @ [Ok docs]) dss ks)
                @ replicate tries Transient, s')"
  shows "fetch_chunks tr criteria flds tries (before @ failing # after) (s, log)
           = (Inl (ChunkRetrievalError failing),
              (s', log @ concat (map2 (\<lambda>chunk k. replicate (Suc k) (ChunkQuery criteria chunk flds))
                                  before ks)
                     @ replicate tries (ChunkQuery criteria failing flds)))"
  using assms
proof (induction before arbitrary: ks dss s log)
  case Nil
  then have "replay tr s (replicate tries (ChunkQuery criteria failing flds))
               = (replicate tries Transient, s')"
    by simp
  then have "fetch_chunk tr criteria flds failing tries (s, log)
               = (Inl (ChunkRetrievalError failing),
                  (s', log @ replicate tries (ChunkQuery criteria failing flds)))"
    by (rule fetch_chunk_out_of_tries)
  with Nil.prems(1) show ?case by simp
next
  case (Cons chunk before)
  from Cons.prems(1) obtain k ks' where ks: "ks = k # ks'" and lk: "length ks' = length before"
    by (cases ks) auto
  from Cons.prems(2) obtain docs dss' where dss: "dss = docs # dss'"
    and ld: "length dss' = length before"
    by (cases dss) auto
  let ?req = "ChunkQuery criteria chunk flds"
  let ?R = "concat (map2 (\<lambda>chunk k. replicate (Suc k) (ChunkQuery criteria chunk flds)) before ks')
              @ replicate tries (ChunkQuery criteria failing flds)"
  let ?A = "concat (map2 (\<lambda>docs k. replicate k Transient @ [Ok docs]) dss' ks')
              @ replicate tries Transient"
  from Cons.prems(4) have whole:
    "replay tr s (replicate (Suc k) ?req @ ?R) = ((replicate k Transient @ [Ok docs]) @ ?A, s')"
    unfolding ks dss by simp
  have len: "length (replicate k Transient @ [Ok docs]) = length (replicate (Suc k) ?req)"
    by simp
  from replay_split [OF whole len] obtain s1 where
    h: "replay tr s (replicate (Suc k) ?req) = (replicate k Transient @ [Ok docs], s1)"
    and t: "replay tr s1 ?R = (?A, s')"
    by (elim exE conjE)
  from Cons.prems(3) have kt: "k < tries" and kts: "\<forall>k \<in> set ks'. k < tries"
    unfolding ks by simp_all
  have one: "fetch_chunk tr criteria flds chunk tries (s, log)
               = (Inr docs, (s1, log @ replicate (Suc k) ?req))"
    using h kt by (rule fetch_chunk_retry)
  have more: "fetch_chunks tr criteria flds tries (before @ failing # after)
                (s1, log @ replicate (Suc k) ?req)
                = (Inl (ChunkRetrievalError failing), (s', (log @ replicate (Suc k) ?req) @ ?R))"
    using lk ld kts t by (rule Cons.IH)
  show ?case
    unfolding ks dss using one more by simp
qed

lemma three_elements: "length xs = 3 \<Longrightarrow> \<exists>a b c. xs = [a, b, c]"
  by (auto simp: length_Suc_conv numeral_3_eq_3)

subsection \<open>A chunked search is complete\<close>

text \<open>
  C1. For a positive \<open>chunk_size\<close>, the chunks of the identifier list are consecutive
  pieces of it (their concatenation is the list), each but the last of size
  \<open>chunk_size\<close> and none empty or larger. Take any run of a search without a cap in which
  the backend answers the identifier query, and then answers each chunk, in the states
  the run reaches, after fewer than \<open>max_tries_per_chunk\<close> transient failures (\<open>ks\<close>
  counts them, chunk by chunk) with as many documents as the chunk has identifiers.
  The search then sends exactly the requests \<open>reqs\<close>, the chunks in order and each
  retried as often as it failed, and returns the concatenated documents, exactly as
  many as there are identifiers. With 2500 identifiers and \<open>chunk_size = 1000\<close> the
  chunks have the sizes 1000, 1000 and 500 and 2500 documents are returned.
\<close>

theorem chunked_search_complete:
  assumes size: "0 < chunk_size"
    and chunks: "chunks = get_chunks (map key id_docs) chunk_size"
    and ks: "length ks = length chunks"
    and budget: "\<forall>k \<in> set ks. k < max_tries_per_chunk"
    and counts: "list_all2 (\<lambda>chunk docs. length docs = length chunk) chunks dss"
    and reqs: "reqs = IdentifierQuery criteria sort_field ascending
                 # concat (map2 (\<lambda>chunk k. replicate (Suc k) (ChunkQuery criteria chunk flds))
                             chunks ks)"
    and backend: "replay tr (fst st) reqs
                    = (Ok id_docs # concat (map2 (\<lambda>docs k. replicate k Transient @ [Ok docs])
                                             dss ks), s')"
  shows "search tr key criteria flds sort_field ascending None chunk_size max_tries_per_chunk st
           = (Inr (concat dss), (s', snd st @ reqs))
         \<and> length (concat dss) = length id_docs
         \<and> concat chunks = map key id_docs
         \<and> (\<forall>chunk \<in> set (butlast chunks). length chunk = chunk_size)
         \<and> (\<forall>chunk \<in> set chunks. 0 < length chunk \<and> length chunk \<le> chunk_size)
         \<and> (length id_docs = 2500 \<and> chunk_size = 1000 \<longrightarrow>
               map length chunks = [1000, 1000, 500] \<and> length (concat dss) = 2500)"
proof -
  let ?idq = "IdentifierQuery criteria sort_field ascending"
  let ?R = "concat (map2 (\<lambda>chunk k. replicate (Suc k) (ChunkQuery criteria chunk flds)) chunks ks)"
  let ?A = "concat (map2 (\<lambda>docs k. replicate k Transient @ [Ok docs]) dss ks)"
  from backend have whole: "replay tr (fst st) (?idq # ?R) = (Ok id_docs # ?A, s')"
    unfolding reqs .
  from replay_first [OF whole] obtain s1 where
    first: "tr (fst st) ?idq = (Ok id_docs, s1)" and rest: "replay tr s1 ?R = (?A, s')"
    by (elim exE conjE)
  from counts have ld: "length dss = length chunks"
    by (simp add: list_all2_lengthD)
  have fetched: "fetch_chunks tr criteria flds max_tries_per_chunk chunks (s1, snd st @ [?idq])
                   = (Inr (concat dss), (s', (snd st @ [?idq]) @ ?R))"
    using ks ld budget rest by (rule fetch_chunks_schedule)
  have ident: "request_once tr ?idq st = (Inr id_docs, (s1, snd st @ [?idq]))"
    using first by (rule request_once_ok)
  have run: "search tr key criteria flds sort_field ascending None chunk_size
               max_tries_per_chunk st = (Inr (concat dss), (s', snd st @ reqs))"
    using size ident fetched by (simp add: search_def cap_chunks_def chunks reqs)
  have cc: "concat chunks = map key id_docs"
    unfolding chunks using size by (rule concat_get_chunks)
  have len: "length (concat dss) = length id_docs"
    using list_all2_lengths [OF counts] cc by simp
  have full: "\<forall>chunk \<in> set (butlast chunks). length chunk = chunk_size"
    unfolding chunks using get_chunks_butlast by blast
  have bound: "\<forall>chunk \<in> set chunks. 0 < length chunk \<and> length chunk \<le> chunk_size"
    unfolding chunks using get_chunks_lengths by blast
  have scenario: "length id_docs = 2500 \<and> chunk_size = 1000 \<longrightarrow>
                    map length chunks = [1000, 1000, 500] \<and> length (concat dss) = 2500"
  proof (intro impI conjI)
    assume a: "length id_docs = 2500 \<and> chunk_size = 1000"
    then have "length (map key id_docs) = 2500"
      by (simp only: length_map)
    then have "map length (get_chunks (map key id_docs) 1000) = [1000, 1000, 500]"
      by (rule get_chunks_2500)
    with a show "map length chunks = [1000, 1000, 500]"
      unfolding chunks by (simp only:)
    from a len show "length (concat dss) = 2500"
      by (simp only:)
  qed
  show ?thesis
    apply (intro conjI)
         apply (rule run)
        apply (rule len)
       apply (rule cc)
      apply (rule full)
     apply (rule bound)
    apply (rule scenario)
    done
qed

theorem chunked_search_complete_witness:
  "\<exists>docs st'.
     search (\<lambda>(s::nat) req.
               (case req of
                  IdentifierQuery c sf a \<Rightarrow> Ok (replicate 2500 ''mp-1'')
                | ChunkQuery c chunk f \<Rightarrow> if s = 2 then Transient else Ok chunk
                | _ \<Rightarrow> Terminal ServerError, Suc s))
       (\<lambda>d. d) () None None None None 1000 3 (0, []) = (Inr docs, st')
     \<and> length docs = 2500
     \<and> map length (get_chunks (map (\<lambda>d. d) (replicate 2500 ''mp-1'')) 1000) = [1000, 1000, 500]
     \<and> length (snd st') = 5"
proof -
  let ?tr = "\<lambda>(s::nat) (req::unit request).
               (case req of
                  IdentifierQuery c sf a \<Rightarrow> Ok (replicate 2500 ''mp-1'')
                | ChunkQuery c chunk f \<Rightarrow> if s = 2 then Transient else Ok chunk
                | _ \<Rightarrow> Terminal ServerError, Suc s)"
  let ?st = "(0, []) :: nat \<times> unit request list"
  let ?ids = "replicate 2500 ''mp-1''"
  have n: "length ?ids = 2500 \<and> (1000::nat) = 1000"
    by simp
  then have "length (map (\<lambda>d. d) ?ids) = 2500"
    by (simp only: length_map)
  then have sizes: "map length (get_chunks (map (\<lambda>d. d) ?ids) 1000) = [1000, 1000, 500]"
    by (rule get_chunks_2500)
  then have "length (map length (get_chunks (map (\<lambda>d. d) ?ids) 1000)) = 3"
    by simp
  then have "length (get_chunks (map (\<lambda>d. d) ?ids) 1000) = 3"
    by (simp only: length_map)
  from three_elements [OF this] obtain c0 c1 c2 where
    "get_chunks (map (\<lambda>d. d) ?ids) 1000 = [c0, c1, c2]"
    by (elim exE)
  then have ch: "[c0, c1, c2] = get_chunks (map (\<lambda>d. d) ?ids) 1000"
    by (rule sym)
  let ?reqs = "[IdentifierQuery () None None, ChunkQuery () c0 None, ChunkQuery () c1 None,
                ChunkQuery () c1 None, ChunkQuery () c2 None] :: unit request list"
  have size: "0 < (1000::nat)" and ks: "length [0, Suc 0, 0] = length [c0, c1, c2]"
    and budget: "\<forall>k \<in> set [0, Suc 0, 0]. k < (3::nat)"
    and counts: "list_all2 (\<lambda>chunk docs. length docs = length chunk) [c0, c1, c2] [c0, c1, c2]"
    by simp_all
  have reqs: "?reqs = IdentifierQuery () None None
                # concat (map2 (\<lambda>chunk k. replicate (Suc k) (ChunkQuery () chunk None))
                            [c0, c1, c2] [0, Suc 0, 0])"
    by simp
  have backend: "replay ?tr (fst ?st) ?reqs
                   = (Ok ?ids # concat (map2 (\<lambda>docs k. replicate k Transient @ [Ok docs])
                                          [c0, c1, c2] [0, Suc 0, 0]), 5)"
    by simp
  note th = chunked_search_complete [where tr = ?tr and st = ?st and key = "\<lambda>d. d"
      and flds = None and chunk_size = 1000 and max_tries_per_chunk = 3
      and chunks = "[c0, c1, c2]" and ks = "[0, Suc 0, 0]" and dss = "[c0, c1, c2]"
      and reqs = ?reqs and s' = 5 and id_docs = ?ids,
      OF size ch ks budget counts reqs backend]
  from th have run: "search ?tr (\<lambda>d. d) () None None None None 1000 3 ?st
                       = (Inr (concat [c0, c1, c2]), (5, snd ?st @ ?reqs))"
    by (rule conjunct1)
  from th have "length (concat [c0, c1, c2]) = length ?ids"
    by (elim conjE)
  with n have len: "length (concat [c0, c1, c2]) = 2500"
    by (simp only:)
  have log: "length (snd (5::nat, snd ?st @ ?reqs)) = 5"
    by simp
  show ?thesis
    apply (rule exI [of _ "concat [c0, c1, c2]"])
    apply (rule exI [of _ "(5, snd ?st @ ?reqs)"])
    apply (intro conjI)
       apply (rule run)
      apply (rule len)
     apply (rule sizes)
    apply (rule log)
    done
qed

subsection \<open>A chunk that keeps failing\<close>

text \<open>
  C2. Take any run in which the chunks before the \<open>i\<close>-th are each answered after fewer
  than \<open>max_tries_per_chunk\<close> transient failures, and the \<open>i\<close>-th chunk then fails
  transiently \<open>max_tries_per_chunk\<close> times in a row, whatever the backend would answer
  afterwards. The search requests that chunk exactly \<open>max_tries_per_chunk\<close> times, each
  chunk having its own tries, and then fails with \<open>ChunkRetrievalError\<close> carrying that
  chunk's identifiers: the outcome is the error alone, and the documents of the chunks
  fetched before are not returned.
\<close>

theorem chunk_retrieval_error_after_max_tries:
  assumes size: "0 < chunk_size"
    and chunks: "chunks = cap_chunks num_chunks (get_chunks (map key id_docs) chunk_size)"
    and i: "i < length chunks"
    and ks: "length ks = i"
    and dss: "length dss = i"
    and budget: "\<forall>k \<in> set ks. k < max_tries_per_chunk"
    and reqs: "reqs = IdentifierQuery criteria sort_field ascending
                 # concat (map2 (\<lambda>chunk k. replicate (Suc k) (ChunkQuery criteria chunk flds))
                             (take i chunks) ks)
                 @ replicate max_tries_per_chunk (ChunkQuery criteria (chunks ! i) flds)"
    and backend: "replay tr (fst st) reqs
                    = (Ok id_docs # concat (map2 (\<lambda>docs k. replicate k Transient @ [Ok docs])
                                             dss ks)
                         @ replicate max_tries_per_chunk Transient, s')"
  shows "search tr key criteria flds sort_field ascending num_chunks chunk_size
           max_tries_per_chunk st
           = (Inl (ChunkRetrievalError (chunks ! i)), (s', snd st @ reqs))"
proof -
  let ?idq = "IdentifierQuery criteria sort_field ascending"
  let ?R = "concat (map2 (\<lambda>chunk k. replicate (Suc k) (ChunkQuery criteria chunk flds))
                      (take i chunks) ks)
              @ replicate max_tries_per_chunk (ChunkQuery criteria (chunks ! i) flds)"
  let ?A = "concat (map2 (\<lambda>docs k. replicate k Transient @ [Ok docs]) dss ks)
              @ replicate max_tries_per_chunk Transient"
  from backend have whole: "replay tr (fst st) (?idq # ?R) = (Ok id_docs # ?A, s')"
    unfolding reqs by simp
  from replay_first [OF whole] obtain s1 where
    first: "tr (fst st) ?idq = (Ok id_docs, s1)" and rest: "replay tr s1 ?R = (?A, s')"
    by (elim exE conjE)
  from i ks have lk: "length ks = length (take i chunks)"
    by simp
  from i dss have ld: "length dss = length (take i chunks)"
    by simp
  have "fetch_chunks tr criteria flds max_tries_per_chunk
          (take i chunks @ chunks ! i # drop (Suc i) chunks) (s1, snd st @ [?idq])
          = (Inl (ChunkRetrievalError (chunks ! i)), (s', (snd st @ [?idq]) @ ?R))"
    using lk ld budget rest by (rule fetch_chunks_fail_schedule)
  moreover have "take i chunks @ chunks ! i # drop (Suc i) chunks = chunks"
    using i by (rule id_take_nth_drop [symmetric])
  ultimately have fetched:
    "fetch_chunks tr criteria flds max_tries_per_chunk chunks (s1, snd st @ [?idq])
       = (Inl (ChunkRetrievalError (chunks ! i)), (s', (snd st @ [?idq]) @ ?R))"
    by simp
  have ident: "request_once tr ?idq st = (Inr id_docs, (s1, snd st @ [?idq]))"
    using first by (rule request_once_ok)
  from fetched have fetched':
    "fetch_chunks tr criteria flds max_tries_per_chunk
       (cap_chunks num_chunks (get_chunks (map key id_docs) chunk_size)) (s1, snd st @ [?idq])
       = (Inl (ChunkRetrievalError (chunks ! i)), (s', (snd st @ [?idq]) @ ?R))"
    unfolding chunks [symmetric] .
  show ?thesis
    using size ident fetched' by (simp add: search_def reqs)
qed

theorem chunk_retrieval_error_after_max_tries_witness:
  "search (\<lambda>(s::nat) req.
             (case req of
                IdentifierQuery c sf a \<Rightarrow> Ok [''a'', ''b'', ''c'']
              | ChunkQuery c chunk f \<Rightarrow>
                  if s = 1 \<or> (3 \<le> s \<and> s \<le> 5) then Transient else Ok chunk
              | _ \<Rightarrow> Terminal ServerError, Suc s))
     (\<lambda>d. d) () None None None None 2 3 (0, [])
   = (Inl (ChunkRetrievalError [''c'']),
      (6, [IdentifierQuery () None None,
           ChunkQuery () [''a'', ''b''] None, ChunkQuery () [''a'', ''b''] None,
           ChunkQuery () [''c''] None, ChunkQuery () [''c''] None, ChunkQuery () [''c''] None]))"
proof -
  let ?tr = "\<lambda>(s::nat) (req::unit request).
               (case req of
                  IdentifierQuery c sf a \<Rightarrow> Ok [''a'', ''b'', ''c'']
                | ChunkQuery c chunk f \<Rightarrow>
                    if s = 1 \<or> (3 \<le> s \<and> s \<le> 5) then Transient else Ok chunk
                | _ \<Rightarrow> Terminal ServerError, Suc s)"
  let ?st = "(0, []) :: nat \<times> unit request list"
  let ?chunks = "[[''a'', ''b''], [''c'']]"
  let ?reqs = "[IdentifierQuery () None None,
                ChunkQuery () [''a'', ''b''] None, ChunkQuery () [''a'', ''b''] None,
                ChunkQuery () [''c''] None, ChunkQuery () [''c''] None,
                ChunkQuery () [''c''] None] :: unit request list"
  have size: "0 < (2::nat)" and i: "1 < length ?chunks"
    and ks: "length [Suc 0] = (1::nat)" and dss: "length [[''a'', ''b'']] = (1::nat)"
    and budget: "\<forall>k \<in> set [Suc 0]. k < (3::nat)"
    by simp_all
  have ch: "?chunks = cap_chunks None (get_chunks (map (\<lambda>d. d) [''a'', ''b'', ''c'']) 2)"
    by (simp add: cap_chunks_def get_chunks.simps)
  have reqs: "?reqs = IdentifierQuery () None None
                # concat (map2 (\<lambda>chunk k. replicate (Suc k) (ChunkQuery () chunk None))
                            (take 1 ?chunks) [Suc 0])
                @ replicate 3 (ChunkQuery () (?chunks ! 1) None)"
    by (simp add: numeral_3_eq_3)
  have backend: "replay ?tr (fst ?st) ?reqs
                   = (Ok [''a'', ''b'', ''c'']
                        # concat (map2 (\<lambda>docs k. replicate k Transient @ [Ok docs])
                                    [[''a'', ''b'']] [Suc 0])
                        @ replicate 3 Transient, 6)"
    by (simp add: numeral_3_eq_3)
  from chunk_retrieval_error_after_max_tries [where tr = ?tr and st = ?st and key = "\<lambda>d. d"
      and flds = None and chunk_size = 2 and max_tries_per_chunk = 3 and num_chunks = None
      and chunks = ?chunks and i = 1 and ks = "[Suc 0]" and dss = "[[''a'', ''b'']]"
      and reqs = ?reqs and s' = 6, OF size ch i ks dss budget reqs backend]
  show ?thesis
    by simp
qed

subsection \<open>A capped search\<close>

text \<open>
  C3. With \<open>num_chunks = k\<close>, take any run in which the backend answers each of the first
  \<open>k\<close> chunks, in the states the run reaches and after fewer than
  \<open>max_tries_per_chunk\<close> transient failures, with the documents of its identifiers in
  their order. The search requests only those chunks and returns the documents of the
  first \<open>k * chunk_size\<close> identifiers of the ordered identifier list, in that order; all
  of them when there are fewer.
\<close>

theorem capped_search_prefix:
  assumes size: "0 < chunk_size"
    and chunks: "chunks = take k (get_chunks (map key id_docs) chunk_size)"
    and ks: "length ks = length chunks"
    and budget: "\<forall>n \<in> set ks. n < max_tries_per_chunk"
    and keys: "list_all2 (\<lambda>chunk docs. map key docs = chunk) chunks dss"
    and reqs: "reqs = IdentifierQuery criteria sort_field ascending
                 # concat (map2 (\<lambda>chunk n. replicate (Suc n) (ChunkQuery criteria chunk flds))
                             chunks ks)"
    and backend: "replay tr (fst st) reqs
                    = (Ok id_docs # concat (map2 (\<lambda>docs n. replicate n Transient @ [Ok docs])
                                             dss ks), s')"
  shows "search tr key criteria flds sort_field ascending (Some k) chunk_size
           max_tries_per_chunk st = (Inr (concat dss), (s', snd st @ reqs))
         \<and> map key (concat dss) = take (k * chunk_size) (map key id_docs)
         \<and> length (concat dss) = min (k * chunk_size) (length id_docs)"
proof -
  let ?idq = "IdentifierQuery criteria sort_field ascending"
  let ?R = "concat (map2 (\<lambda>chunk n. replicate (Suc n) (ChunkQuery criteria chunk flds)) chunks ks)"
  let ?A = "concat (map2 (\<lambda>docs n. replicate n Transient @ [Ok docs]) dss ks)"
  from backend have whole: "replay tr (fst st) (?idq # ?R) = (Ok id_docs # ?A, s')"
    unfolding reqs .
  from replay_first [OF whole] obtain s1 where
    first: "tr (fst st) ?idq = (Ok id_docs, s1)" and rest: "replay tr s1 ?R = (?A, s')"
    by (elim exE conjE)
  from keys have ld: "length dss = length chunks"
    by (simp add: list_all2_lengthD)
  have fetched: "fetch_chunks tr criteria flds max_tries_per_chunk chunks (s1, snd st @ [?idq])
                   = (Inr (concat dss), (s', (snd st @ [?idq]) @ ?R))"
    using ks ld budget rest by (rule fetch_chunks_schedule)
  have ident: "request_once tr ?idq st = (Inr id_docs, (s1, snd st @ [?idq]))"
    using first by (rule request_once_ok)
  have run: "search tr key criteria flds sort_field ascending (Some k) chunk_size
               max_tries_per_chunk st = (Inr (concat dss), (s', snd st @ reqs))"
    using size ident fetched by (simp add: search_def cap_chunks_def chunks reqs)
  have cc: "concat chunks = take (k * chunk_size) (map key id_docs)"
    unfolding chunks using size by (rule concat_take_get_chunks)
  have keys': "map key (concat dss) = take (k * chunk_size) (map key id_docs)"
    using list_all2_keys [OF keys] cc by simp
  then have "length (map key (concat dss)) = length (take (k * chunk_size) (map key id_docs))"
    by (simp only:)
  then have len: "length (concat dss) = min (k * chunk_size) (length id_docs)"
    by (simp add: min.commute)
  from run keys' len show ?thesis
    by (intro conjI)
qed

theorem capped_search_prefix_witness:
  "search (\<lambda>(s::nat) req.
             (case req of
                IdentifierQuery c sf a \<Rightarrow> Ok [''a'', ''b'', ''c'', ''d'', ''e'']
              | ChunkQuery c chunk f \<Rightarrow> if s = 2 then Transient else Ok chunk
              | _ \<Rightarrow> Terminal ServerError, Suc s))
     (\<lambda>d. d) () None None None (Some 2) 2 3 (0, [])
   = (Inr [''a'', ''b'', ''c'', ''d''],
      (4, [IdentifierQuery () None None, ChunkQuery () [''a'', ''b''] None,
           ChunkQuery () [''c'', ''d''] None, ChunkQuery () [''c'', ''d''] None]))"
proof -
  let ?tr = "\<lambda>(s::nat) (req::unit request).
               (case req of
                  IdentifierQuery c sf a \<Rightarrow> Ok [''a'', ''b'', ''c'', ''d'', ''e'']
                | ChunkQuery c chunk f \<Rightarrow> if s = 2 then Transient else Ok chunk
                | _ \<Rightarrow> Terminal ServerError, Suc s)"
  let ?st = "(0, []) :: nat \<times> unit request list"
  let ?chunks = "[[''a'', ''b''], [''c'', ''d'']]"
  let ?reqs = "[IdentifierQuery () None None, ChunkQuery () [''a'', ''b''] None,
                ChunkQuery () [''c'', ''d''] None, ChunkQuery () [''c'', ''d''] None]
               :: unit request list"
  have size: "0 < (2::nat)" and ks: "length [0, Suc 0] = length ?chunks"
    and budget: "\<forall>n \<in> set [0, Suc 0]. n < (3::nat)"
    and keys: "list_all2 (\<lambda>chunk docs. map (\<lambda>d. d) docs = chunk) ?chunks ?chunks"
    by simp_all
  have ch: "?chunks = take 2 (get_chunks (map (\<lambda>d. d) [''a'', ''b'', ''c'', ''d'', ''e'']) 2)"
    by (simp add: get_chunks.simps)
  have reqs: "?reqs = IdentifierQuery () None None
                # concat (map2 (\<lambda>chunk n. replicate (Suc n) (ChunkQuery () chunk None))
                            ?chunks [0, Suc 0])"
    by simp
  have backend: "replay ?tr (fst ?st) ?reqs
                   = (Ok [''a'', ''b'', ''c'', ''d'', ''e'']
                        # concat (map2 (\<lambda>docs n. replicate n Transient @ [Ok docs])
                                    ?chunks [0, Suc 0]), 4)"
    by simp
  from capped_search_prefix [where tr = ?tr and st = ?st and key = "\<lambda>d. d" and flds = None
      and chunk_size = 2 and max_tries_per_chunk = 3 and k = 2 and chunks = ?chunks
      and ks = "[0, Suc 0]" and dss = ?chunks and reqs = ?reqs and s' = 4,
      OF size ch ks budget keys reqs backend]
  show ?thesis
    by simp
qed

subsection \<open>Lookup of one identifier\<close>

text \<open>
  C6. \<open>get_by_id\<close> fails with \<open>ValidationError\<close>, and sends nothing (the state and the
  log of requests are unchanged), when the identifier is empty or does not match the
  resource's pattern; it fails with \<open>NotFoundError\<close> when the identifier is well-formed
  and the backend answers its one request without a document.
\<close>

theorem get_by_id_errors:
  "(ident = [] \<or> \<not> pattern ident \<longrightarrow>
      get_by_id tr pattern ident flds st = (Inl ValidationError, st))
   \<and> (ident \<noteq> [] \<and> pattern ident
        \<and> tr (fst st) (ByIdQuery ident flds) = (Ok [], s') \<longrightarrow>
      get_by_id tr pattern ident flds st
        = (Inl NotFoundError, (s', snd st @ [ByIdQuery ident flds])))"
  by (auto simp: get_by_id_def request_once_ok)

theorem get_by_id_errors_witness:
  "get_by_id (\<lambda>(s::unit) (req::unit request). (Ok ([]::unit list), s))
      (\<lambda>i. take 3 i = ''mp-'' \<and> drop 3 i \<noteq> []
             \<and> list_all (\<lambda>c. c \<in> set ''0123456789'') (drop 3 i))
      [] None ((), []) = (Inl ValidationError, ((), []))
   \<and> get_by_id (\<lambda>(s::unit) (req::unit request). (Ok ([]::unit list), s))
      (\<lambda>i. take 3 i = ''mp-'' \<and> drop 3 i \<noteq> []
             \<and> list_all (\<lambda>c. c \<in> set ''0123456789'') (drop 3 i))
      ''mp-1a'' None ((), []) = (Inl ValidationError, ((), []))
   \<and> get_by_id (\<lambda>(s::unit) (req::unit request). (Ok ([]::unit list), s))
      (\<lambda>i. take 3 i = ''mp-'' \<and> drop 3 i \<noteq> []
             \<and> list_all (\<lambda>c. c \<in> set ''0123456789'') (drop 3 i))
      ''mp-1'' None ((), []) = (Inl NotFoundError, ((), [ByIdQuery ''mp-1'' None]))"
  using
    get_by_id_errors [where tr = "\<lambda>(s::unit) (req::unit request). (Ok ([]::unit list), s)"
      and pattern = "\<lambda>i. take 3 i = ''mp-'' \<and> drop 3 i \<noteq> []
             \<and> list_all (\<lambda>c. c \<in> set ''0123456789'') (drop 3 i)"
      and ident = "[]" and flds = None and st = "((), [])" and s' = "()"]
    get_by_id_errors [where tr = "\<lambda>(s::unit) (req::unit request). (Ok ([]::unit list), s)"
      and pattern = "\<lambda>i. take 3 i = ''mp-'' \<and> drop 3 i \<noteq> []
             \<and> list_all (\<lambda>c. c \<in> set ''0123456789'') (drop 3 i)"
      and ident = "''mp-1a''" and flds = None and st = "((), [])" and s' = "()"]
    get_by_id_errors [where tr = "\<lambda>(s::unit) (req::unit request). (Ok ([]::unit list), s)"
      and pattern = "\<lambda>i. take 3 i = ''mp-'' \<and> drop 3 i \<noteq> []
             \<and> list_all (\<lambda>c. c \<in> set ''0123456789'') (drop 3 i)"
      and ident = "''mp-1''" and flds = None and st = "((), [])" and s' = "()"]
  by simp

end
